theory Spec2Isabelle
  imports Main
begin

section \<open>JavaScript values read and produced by the module\<close>

text \<open>
  The module \<^verbatim>\<open>public/engine/telegram.js\<close> reads a request object, the body of two
  HTTP responses and two process-wide globals, all of them dynamically typed. They are
  modelled by one datatype of JSON-like values.

  Strings are byte strings (the UTF-8 encoding of the JavaScript string). Every character
  the program inspects, inserts or replaces is ASCII, and an ASCII byte occurs in UTF-8
  text only as that character, so replacing and concatenating on bytes agrees with the
  same operations on UTF-16 code units.

  A Number is represented by its decimal rendering, the result of
  \<^verbatim>\<open>Number.prototype.toString\<close> (\<^verbatim>\<open>-6.2\<close>, \<^verbatim>\<open>0\<close>, \<^verbatim>\<open>NaN\<close>, \<^verbatim>\<open>Infinity\<close>): the program only
  converts numbers to text and tests them for truthiness, and both are functions of the
  rendering.

  An object is the list of the properties that can be read from it, in enumeration
  order and with pairwise distinct keys. For the objects the program serialises (the
  query and the headers of a request, the body of an error response) these are the own
  enumerable properties, the ones \<^verbatim>\<open>JSON.stringify\<close> visits.
\<close>

datatype jsval =
    JUndefined
  | JNull
  | JBool bool
  | JNum string
  | JStr string
  | JArr "jsval list"
  | JObj "(string \<times> jsval) list"

text \<open>
  A thrown value. Both the engine (a \<^verbatim>\<open>TypeError\<close> on reading a property of
  \<^verbatim>\<open>undefined\<close> or \<^verbatim>\<open>null\<close>) and the HTTP client (an \<^verbatim>\<open>AxiosError\<close>) throw \<^verbatim>\<open>Error\<close>
  objects, whose \<^verbatim>\<open>message\<close> is a string; \<^verbatim>\<open>response\<close> is the HTTP response an
  \<^verbatim>\<open>AxiosError\<close> may carry and \<^verbatim>\<open>undefined\<close> otherwise.
\<close>

datatype js_error = JsError (error_name: string) (message: string) (response: jsval)

text \<open>
  What one awaited HTTP call does: the promise is fulfilled with a response value or
  rejected with an error. The call is taken to settle.
\<close>

datatype outcome = Resolved jsval | Rejected js_error

definition backslash :: char where
  "backslash = CHR 0x5C"

definition quote :: char where
  "quote = CHR 0x27"

definition dquote :: char where
  "dquote = CHR 0x22"

definition newline :: char where
  "newline = CHR 0x0A"

text \<open>\<^verbatim>\<open>ToBoolean\<close>: the test made by \<^verbatim>\<open>||\<close>, \<^verbatim>\<open>&&\<close>, \<^verbatim>\<open>!\<close>, \<^verbatim>\<open>?:\<close> and \<^verbatim>\<open>if\<close>.\<close>

fun truthy :: "jsval \<Rightarrow> bool" where
  "truthy JUndefined = False"
| "truthy JNull = False"
| "truthy (JBool b) = b"
| "truthy (JNum n) = (n \<noteq> ''0'' \<and> n \<noteq> ''NaN'')"
| "truthy (JStr s) = (s \<noteq> [])"
| "truthy (JArr xs) = True"
| "truthy (JObj kvs) = True"

text \<open>The operator \<^verbatim>\<open>a || b\<close> on two values already computed.\<close>

definition js_or :: "jsval \<Rightarrow> jsval \<Rightarrow> jsval" where
  "js_or a b = (if truthy a then a else b)"

text \<open>
  The \<^verbatim>\<open>TypeError\<close> of V8 (Node.js) for a property read on \<^verbatim>\<open>undefined\<close> or \<^verbatim>\<open>null\<close>.
\<close>

definition type_error :: "string \<Rightarrow> string \<Rightarrow> js_error" where
  "type_error base p =
     JsError ''TypeError''
       (''Cannot read properties of '' @ base @ '' (reading '' @ [quote] @ p @ [quote] @ '')'')
       JUndefined"

text \<open>
  A property read \<^verbatim>\<open>v.p\<close> or \<^verbatim>\<open>v['p']\<close>. It throws on \<^verbatim>\<open>undefined\<close> and \<^verbatim>\<open>null\<close>, finds
  an own property of an object, and is \<^verbatim>\<open>undefined\<close> otherwise: none of the names the
  program reads (\<^verbatim>\<open>headers\<close>, \<^verbatim>\<open>x-forwarded-for\<close>, \<^verbatim>\<open>user-agent\<close>, \<^verbatim>\<open>connection\<close>,
  \<^verbatim>\<open>remoteAddress\<close>, \<^verbatim>\<open>method\<close>, \<^verbatim>\<open>originalUrl\<close>, \<^verbatim>\<open>url\<close>, \<^verbatim>\<open>query\<close>, \<^verbatim>\<open>data\<close>, \<^verbatim>\<open>status\<close>,
  \<^verbatim>\<open>city\<close>, \<^verbatim>\<open>regionName\<close>, \<^verbatim>\<open>country\<close>, \<^verbatim>\<open>lat\<close>, \<^verbatim>\<open>lon\<close>, \<^verbatim>\<open>message\<close>, \<^verbatim>\<open>ok\<close>,
  \<^verbatim>\<open>description\<close>) is a property of a built-in prototype of strings, numbers, booleans,
  arrays or objects.
\<close>

fun get_prop :: "jsval \<Rightarrow> string \<Rightarrow> js_error + jsval" where
  "get_prop JUndefined p = Inl (type_error ''undefined'' p)"
| "get_prop JNull p = Inl (type_error ''null'' p)"
| "get_prop (JObj kvs) p = Inr (case map_of kvs p of Some v \<Rightarrow> v | None \<Rightarrow> JUndefined)"
| "get_prop v p = Inr JUndefined"

text \<open>Sequencing of two steps of which the first may throw.\<close>

definition and_then :: "'e + 'a \<Rightarrow> ('a \<Rightarrow> 'e + 'b) \<Rightarrow> 'e + 'b" where
  "and_then m f = (case m of Inl e \<Rightarrow> Inl e | Inr v \<Rightarrow> f v)"

text \<open>\<^verbatim>\<open>Array.prototype.join\<close> on texts.\<close>

fun join :: "string \<Rightarrow> string list \<Rightarrow> string" where
  "join sep [] = []"
| "join sep [x] = x"
| "join sep (x # y # ys) = x @ sep @ join sep (y # ys)"

text \<open>
  \<^verbatim>\<open>ToString\<close>, the conversion made by a template literal \<^verbatim>\<open>`${v}`\<close>. An array is
  joined with commas, \<^verbatim>\<open>undefined\<close> and \<^verbatim>\<open>null\<close> elements giving the empty text; a plain
  object is \<^verbatim>\<open>[object Object]\<close>.
\<close>

fun to_string :: "jsval \<Rightarrow> string"
  and to_string_elems :: "jsval list \<Rightarrow> string list" where
  "to_string JUndefined = ''undefined''"
| "to_string JNull = ''null''"
| "to_string (JBool b) = (if b then ''true'' else ''false'')"
| "to_string (JNum n) = n"
| "to_string (JStr s) = s"
| "to_string (JArr xs) = join '','' (to_string_elems xs)"
| "to_string (JObj kvs) = ''[object Object]''"
| "to_string_elems [] = []"
| "to_string_elems (x # xs) =
     (if x = JUndefined \<or> x = JNull then [] else to_string x) # to_string_elems xs"

subsection \<open>\<^verbatim>\<open>JSON.stringify\<close>\<close>

definition hex_digit :: "nat \<Rightarrow> char" where
  "hex_digit n = (''0123456789abcdef'') ! (n mod 16)"

text \<open>
  \<^verbatim>\<open>QuoteJSONString\<close> on one character: the quotation mark and the backslash are
  escaped, control characters have their short or \<^verbatim>\<open>\u00XX\<close> escape.
\<close>

definition json_quote_char :: "char \<Rightarrow> string" where
  "json_quote_char c =
     (if c = dquote then [backslash, dquote]
      else if c = backslash then [backslash, backslash]
      else if c = CHR 0x08 then [backslash, CHR ''b'']
      else if c = CHR 0x0C then [backslash, CHR ''f'']
      else if c = CHR 0x0A then [backslash, CHR ''n'']
      else if c = CHR 0x0D then [backslash, CHR ''r'']
      else if c = CHR 0x09 then [backslash, CHR ''t'']
      else if (of_char c :: nat) < 32
        then [backslash, CHR ''u'', CHR ''0'', CHR ''0'',
              hex_digit ((of_char c :: nat) div 16), hex_digit (of_char c :: nat)]
      else [c])"

definition json_quote :: "string \<Rightarrow> string" where
  "json_quote s = [dquote] @ concat (map json_quote_char s) @ [dquote]"

text \<open>
  \<^verbatim>\<open>SerializeJSONProperty\<close> with the gap \<open>gap\<close> (two spaces for
  \<^verbatim>\<open>JSON.stringify(v, null, 2)\<close>, empty for \<^verbatim>\<open>JSON.stringify(v)\<close>) at the current
  indentation \<open>ind\<close>. \<open>None\<close> is the result \<^verbatim>\<open>undefined\<close>. A property whose value is
  \<^verbatim>\<open>undefined\<close> is left out of an object and is \<^verbatim>\<open>null\<close> in an array; a number that
  is not finite is \<^verbatim>\<open>null\<close>.
\<close>

fun json_ser :: "string \<Rightarrow> string \<Rightarrow> jsval \<Rightarrow> string option"
  and json_elems :: "string \<Rightarrow> string \<Rightarrow> jsval list \<Rightarrow> string list"
  and json_members :: "string \<Rightarrow> string \<Rightarrow> (string \<times> jsval) list \<Rightarrow> string list" where
  "json_ser gap ind JUndefined = None"
| "json_ser gap ind JNull = Some ''null''"
| "json_ser gap ind (JBool b) = Some (if b then ''true'' else ''false'')"
| "json_ser gap ind (JNum n) =
     Some (if n = ''NaN'' \<or> n = ''Infinity'' \<or> n = ''-Infinity'' then ''null'' else n)"
| "json_ser gap ind (JStr s) = Some (json_quote s)"
| "json_ser gap ind (JArr xs) =
     Some (if xs = [] then ''[]''
           else if gap = [] then ''['' @ join '','' (json_elems gap (ind @ gap) xs) @ '']''
           else ''['' @ [newline] @ (ind @ gap)
                @ join ('','' @ [newline] @ (ind @ gap)) (json_elems gap (ind @ gap) xs)
                @ [newline] @ ind @ '']'')"
| "json_ser gap ind (JObj kvs) =
     Some (if json_members gap (ind @ gap) kvs = [] then ''{}''
           else if gap = [] then ''{'' @ join '','' (json_members gap (ind @ gap) kvs) @ ''}''
           else ''{'' @ [newline] @ (ind @ gap)
                @ join ('','' @ [newline] @ (ind @ gap)) (json_members gap (ind @ gap) kvs)
                @ [newline] @ ind @ ''}'')"
| "json_elems gap ind [] = []"
| "json_elems gap ind (x # xs) =
     (case json_ser gap ind x of None \<Rightarrow> ''null'' | Some t \<Rightarrow> t) # json_elems gap ind xs"
| "json_members gap ind [] = []"
| "json_members gap ind ((k, v) # kvs) =
     (case json_ser gap ind v of
        None \<Rightarrow> json_members gap ind kvs
      | Some t \<Rightarrow>
          (json_quote k @ '':'' @ (if gap = [] then [] else '' '') @ t)
            # json_members gap ind kvs)"

text \<open>\<^verbatim>\<open>JSON.stringify(v, null, 2)\<close> and \<^verbatim>\<open>JSON.stringify(v)\<close>, as JavaScript values.\<close>

definition JSON_stringify :: "nat \<Rightarrow> jsval \<Rightarrow> jsval" where
  "JSON_stringify space v =
     (case json_ser (replicate (min 10 space) CHR '' '') [] v of
        None \<Rightarrow> JUndefined
      | Some t \<Rightarrow> JStr t)"

subsection \<open>\<^verbatim>\<open>Date.prototype.toLocaleString\<close>\<close>

text \<open>
  The instant of a call, as the calendar fields of the wall clock in the zone
  \<^verbatim>\<open>Asia/Jakarta\<close>; turning the instant into these fields is the runtime's work.
\<close>

record wall_clock =
  clock_day :: nat
  clock_month :: nat
  clock_year :: nat
  clock_hour :: nat
  clock_minute :: nat
  clock_second :: nat

definition digit_char :: "nat \<Rightarrow> char" where
  "digit_char n = (''0123456789'') ! (n mod 10)"

fun decimal :: "nat \<Rightarrow> string" where
  "decimal n = (if n < 10 then [digit_char n] else decimal (n div 10) @ [digit_char n])"

definition two_digits :: "nat \<Rightarrow> string" where
  "two_digits n = (if n < 10 then ''0'' @ decimal n else decimal n)"

text \<open>
  \<^verbatim>\<open>toLocaleString('id-ID', { timeZone: 'Asia/Jakarta' })\<close> as Node.js renders it with its
  locale data: day, month and year separated by slashes, a comma, then hour, minute and
  second on two digits separated by dots, as in \<^verbatim>\<open>1/11/2026, 10.00.00\<close>.
\<close>

definition toLocaleString_id :: "wall_clock \<Rightarrow> string" where
  "toLocaleString_id c =
     decimal (clock_day c) @ ''/'' @ decimal (clock_month c) @ ''/'' @ decimal (clock_year c)
     @ '', '' @ two_digits (clock_hour c) @ ''.'' @ two_digits (clock_minute c)
     @ ''.'' @ two_digits (clock_second c)"

section \<open>Console and network effects\<close>

text \<open>
  The module writes to the console and issues HTTP calls. A run returns the list of its
  effects in the order they happen. The colour functions of \<^verbatim>\<open>chalk\<close> are kept
  symbolic: a console line is a list of segments, each plain or wrapped by one colour.
\<close>

datatype chalk = White | Green | Red | Yellow | Blue

datatype segment = Plain string | Styled chalk string

datatype effect =
    ConsoleLog "segment list"
  | ConsoleError "segment list"
  | HttpGet string
  | HttpPost string jsval

text \<open>
  \<^verbatim>\<open>logStyled(message, type)\<close>, lines 11 to 35: the \<^verbatim>\<open>switch\<close> picks a prefix and a colour
  (every case overwrites the initial \<^verbatim>\<open>chalk.white\<close>), and one line
  \<^verbatim>\<open>`${prefix} ${colorFn(message)}`\<close> is logged. The symbols before the tags are the
  UTF-8 bytes of U+2714, U+2716, U+26A0 and U+2139.
\<close>

definition logStyled :: "string \<Rightarrow> string \<Rightarrow> effect" where
  "logStyled msg ty =
     (let (prefix, colorFn) =
        (if ty = ''success''
           then (Styled Green ([CHR 0xE2, CHR 0x9C, CHR 0x94] @ '' [SUCCESS]''), Green)
         else if ty = ''error''
           then (Styled Red ([CHR 0xE2, CHR 0x9C, CHR 0x96] @ '' [ERROR]''), Red)
         else if ty = ''warn''
           then (Styled Yellow ([CHR 0xE2, CHR 0x9A, CHR 0xA0] @ '' [WARNING]''), Yellow)
         else (Styled Blue ([CHR 0xE2, CHR 0x84, CHR 0xB9] @ '' [INFO]''), Blue))
      in ConsoleLog [prefix, Plain '' '', Styled colorFn msg])"

definition is_http :: "effect \<Rightarrow> bool" where
  "is_http e = (case e of HttpGet u \<Rightarrow> True | HttpPost u b \<Rightarrow> True | _ \<Rightarrow> False)"

section \<open>\<^verbatim>\<open>getRequest\<close>\<close>

text \<open>The object returned by \<^verbatim>\<open>getRequest\<close>, lines 80 to 89.\<close>

record snapshot =
  ip :: jsval
  userAgent :: jsval
  "method" :: jsval
  url :: jsval
  query :: jsval
  headers :: jsval
  location :: string
  timestamp :: string

text \<open>
  Line 46:
  \<^verbatim>\<open>req.headers['x-forwarded-for'] || req.connection.remoteAddress || 'Unknown IP'\<close>.
  The operands of \<^verbatim>\<open>||\<close> are evaluated from the left, and only until one is truthy.
\<close>

definition getRequest_ip :: "jsval \<Rightarrow> js_error + jsval" where
  "getRequest_ip req =
     and_then (get_prop req ''headers'') (\<lambda>h.
     and_then (get_prop h ''x-forwarded-for'') (\<lambda>forwarded.
       if truthy forwarded then Inr forwarded
       else
         and_then (get_prop req ''connection'') (\<lambda>c.
         and_then (get_prop c ''remoteAddress'') (\<lambda>remote.
           if truthy remote then Inr remote else Inr (JStr ''Unknown IP'')))))"

text \<open>Line 47: \<^verbatim>\<open>req.headers['user-agent'] || 'Unknown User-Agent'\<close>.\<close>

definition getRequest_userAgent :: "jsval \<Rightarrow> js_error + jsval" where
  "getRequest_userAgent req =
     and_then (get_prop req ''headers'') (\<lambda>h.
     and_then (get_prop h ''user-agent'') (\<lambda>agent.
       Inr (js_or agent (JStr ''Unknown User-Agent''))))"

text \<open>Line 48: \<^verbatim>\<open>req.method || 'Unknown Method'\<close>.\<close>

definition getRequest_method :: "jsval \<Rightarrow> js_error + jsval" where
  "getRequest_method req =
     and_then (get_prop req ''method'') (\<lambda>m. Inr (js_or m (JStr ''Unknown Method'')))"

text \<open>Line 49: \<^verbatim>\<open>req.originalUrl || req.url || 'Unknown URL'\<close>.\<close>

definition getRequest_url :: "jsval \<Rightarrow> js_error + jsval" where
  "getRequest_url req =
     and_then (get_prop req ''originalUrl'') (\<lambda>original.
       if truthy original then Inr original
       else and_then (get_prop req ''url'') (\<lambda>u. Inr (js_or u (JStr ''Unknown URL''))))"

text \<open>Line 52: \<^verbatim>\<open>req.query ? JSON.stringify(req.query, null, 2) : '{}'\<close>.\<close>

definition getRequest_query :: "jsval \<Rightarrow> js_error + jsval" where
  "getRequest_query req =
     and_then (get_prop req ''query'') (\<lambda>q.
       if truthy q then and_then (get_prop req ''query'') (\<lambda>q'. Inr (JSON_stringify 2 q'))
       else Inr (JStr ''{}''))"

text \<open>Line 53: \<^verbatim>\<open>req.headers ? JSON.stringify(req.headers, null, 2) : '{}'\<close>.\<close>

definition getRequest_headers :: "jsval \<Rightarrow> js_error + jsval" where
  "getRequest_headers req =
     and_then (get_prop req ''headers'') (\<lambda>h.
       if truthy h then and_then (get_prop req ''headers'') (\<lambda>h'. Inr (JSON_stringify 2 h'))
       else Inr (JStr ''{}''))"

text \<open>
  Lines 60 and 63, up to the \<^verbatim>\<open>await\<close>: the progress line and the one outbound
  \<^verbatim>\<open>GET\<close>, whose URL embeds the address as it is.
\<close>

definition getRequest_lookup :: "jsval \<Rightarrow> effect list" where
  "getRequest_lookup ipv =
     [logStyled (''Mencari detail lokasi untuk IP: '' @ to_string ipv @ ''...'') ''info'',
      HttpGet (''http://ip-api.com/json/'' @ to_string ipv
               @ ''?fields=status,message,country,regionName,city,lat,lon'')]"

text \<open>Line 65, the condition \<^verbatim>\<open>res.data && res.data.status === 'success'\<close>.\<close>

definition getRequest_is_success :: "jsval \<Rightarrow> js_error + bool" where
  "getRequest_is_success res =
     and_then (get_prop res ''data'') (\<lambda>d.
       if truthy d
       then and_then (get_prop res ''data'') (\<lambda>d'.
            and_then (get_prop d' ''status'') (\<lambda>st. Inr (st = JStr ''success'')))
       else Inr False)"

text \<open>
  Lines 66 and 67, the success branch: the composed location, then the line logged with
  the coordinates.
\<close>

definition getRequest_found :: "jsval \<Rightarrow> js_error + string \<times> effect list" where
  "getRequest_found res =
     and_then (get_prop res ''data'') (\<lambda>d1. and_then (get_prop d1 ''city'') (\<lambda>city.
     and_then (get_prop res ''data'') (\<lambda>d2. and_then (get_prop d2 ''regionName'') (\<lambda>region.
     and_then (get_prop res ''data'') (\<lambda>d3. and_then (get_prop d3 ''country'') (\<lambda>country.
       let loc = to_string city @ '', '' @ to_string region @ '', '' @ to_string country in
       and_then (get_prop res ''data'') (\<lambda>d4. and_then (get_prop d4 ''lat'') (\<lambda>lat.
       and_then (get_prop res ''data'') (\<lambda>d5. and_then (get_prop d5 ''lon'') (\<lambda>lon.
         Inr (loc,
              [logStyled (''Lokasi ditemukan: '' @ loc @ '' (Lat: '' @ to_string lat
                          @ '', Lon: '' @ to_string lon @ '')'') ''success''])))))))))))"

text \<open>
  Lines 70 and 71, the other branch:
  \<^verbatim>\<open>res.data.message || 'Error tidak diketahui dari ip-api.com'\<close> after the prefix.
\<close>

definition getRequest_not_found :: "jsval \<Rightarrow> js_error + string \<times> effect list" where
  "getRequest_not_found res =
     and_then (get_prop res ''data'') (\<lambda>d. and_then (get_prop d ''message'') (\<lambda>m.
       let loc = ''Gagal mendapatkan lokasi: ''
                   @ to_string (js_or m (JStr ''Error tidak diketahui dari ip-api.com'')) in
       Inr (loc, [logStyled (''Gagal mencari lokasi IP: '' @ loc) ''warn''])))"

text \<open>
  Lines 59 to 72, the body of the \<^verbatim>\<open>try\<close> after the call was issued: the location and
  the lines logged, or the error thrown (by the rejected call or by a property read).
\<close>

definition getRequest_try :: "outcome \<Rightarrow> js_error + string \<times> effect list" where
  "getRequest_try geo =
     (case geo of
        Rejected err \<Rightarrow> Inl err
      | Resolved res \<Rightarrow>
          and_then (getRequest_is_success res) (\<lambda>success.
            if success then getRequest_found res else getRequest_not_found res))"

text \<open>Lines 73 to 78, the \<^verbatim>\<open>catch\<close> block.\<close>

definition getRequest_catch :: "jsval \<Rightarrow> js_error \<Rightarrow> string \<times> effect list" where
  "getRequest_catch ipv err =
     (''Error saat mengambil lokasi: '' @ message err,
      [ConsoleError
         [Styled Red (''[ERROR FETCH] Gagal mendapatkan lokasi dari ip-api.com untuk IP ''
                      @ to_string ipv @ '': '' @ message err)],
       logStyled ''Terjadi kesalahan saat mencari lokasi.'' ''error''])"

text \<open>
  Lines 58 to 78: the \<^verbatim>\<open>try\<close> and its \<^verbatim>\<open>catch\<close>. The initial value of \<^verbatim>\<open>location\<close>,
  \<^verbatim>\<open>'Lokasi tidak diketahui'\<close>, is overwritten on each of the three paths.
\<close>

definition getRequest_location :: "jsval \<Rightarrow> outcome \<Rightarrow> string \<times> effect list" where
  "getRequest_location ipv geo =
     (case getRequest_try geo of
        Inr (loc, logged) \<Rightarrow> (loc, getRequest_lookup ipv @ logged)
      | Inl err \<Rightarrow>
          (let (loc, logged) = getRequest_catch ipv err
           in (loc, getRequest_lookup ipv @ logged)))"

text \<open>
  \<^verbatim>\<open>getRequest(req)\<close>, lines 44 to 90. \<open>now\<close> is the text of line 56,
  \<^verbatim>\<open>new Date().toLocaleString('id-ID', { timeZone: 'Asia/Jakarta' })\<close>, an input of
  the model: it is \<open>toLocaleString_id\<close> of the clock at the call. \<open>geo\<close> is what
  the geolocation call does. Lines 46 to 53 stand outside the \<^verbatim>\<open>try\<close>: an error thrown there rejects the promise,
  before anything is logged.
\<close>

definition getRequest :: "jsval \<Rightarrow> string \<Rightarrow> outcome \<Rightarrow> (js_error + snapshot) \<times> effect list" where
  "getRequest req now geo =
     (case
        and_then (getRequest_ip req) (\<lambda>ipv.
        and_then (getRequest_userAgent req) (\<lambda>agent.
        and_then (getRequest_method req) (\<lambda>m.
        and_then (getRequest_url req) (\<lambda>u.
        and_then (getRequest_query req) (\<lambda>q.
        and_then (getRequest_headers req) (\<lambda>h. Inr (ipv, agent, m, u, q, h)))))))
      of
        Inl err \<Rightarrow> (Inl err, [])
      | Inr (ipv, agent, m, u, q, h) \<Rightarrow>
          (let (loc, effects) = getRequest_location ipv geo
           in (Inr \<lparr>ip = ipv, userAgent = agent, method = m, url = u, query = q,
                     headers = h, location = loc, timestamp = now\<rparr>,
               effects)))"

section \<open>\<^verbatim>\<open>sendTele\<close>\<close>

text \<open>
  The two globals read by \<^verbatim>\<open>sendTele\<close>, \<^verbatim>\<open>global.token\<close> and \<^verbatim>\<open>global.chatid\<close>. The
  module that sets them (\<^verbatim>\<open>../settings/config\<close>, line 5) is not among the sources: their
  values are inputs, read at each call.
\<close>

record globals =
  token :: jsval
  chatid :: jsval

text \<open>One call \<^verbatim>\<open>text.replace(/c/g, '\\c')\<close>: every \<open>c\<close> becomes a backslash and \<open>c\<close>.\<close>

definition replace_global :: "char \<Rightarrow> string \<Rightarrow> string" where
  "replace_global c text = concat (map (\<lambda>x. if x = c then [backslash, c] else [x]) text)"

text \<open>
  The characters of the eighteen \<^verbatim>\<open>replace\<close> calls of lines 109 to 126, in the order of
  the calls: \<^verbatim>\<open>_ * [ ] ( ) ~ ` > # + - = | { } . !\<close>
\<close>

definition reserved :: "char list" where
  "reserved = ''_*[]()~'' @ [CHR 0x60] @ ''>#+-=|{}.!''"

text \<open>\<^verbatim>\<open>escapeMarkdownV2(text)\<close>, lines 107 to 127: the calls are chained, first to last.\<close>

definition escapeMarkdownV2 :: "string \<Rightarrow> string" where
  "escapeMarkdownV2 text = fold replace_global reserved text"

text \<open>
  Lines 137 to 148, the body of the \<^verbatim>\<open>try\<close> after the \<^verbatim>\<open>POST\<close> was issued: the line
  logged, or the error thrown.
\<close>

definition sendTele_try :: "outcome \<Rightarrow> js_error + effect list" where
  "sendTele_try api =
     (case api of
        Rejected err \<Rightarrow> Inl err
      | Resolved resp \<Rightarrow>
          and_then (get_prop resp ''data'') (\<lambda>d. and_then (get_prop d ''ok'') (\<lambda>ok.
            if truthy ok
            then Inr [logStyled ''Notifikasi Telegram berhasil terkirim!'' ''success'']
            else
              and_then (get_prop resp ''data'') (\<lambda>d'.
              and_then (get_prop d' ''description'') (\<lambda>description.
                Inr [logStyled
                       (''Gagal mengirim notifikasi Telegram: ''
                        @ to_string (js_or description (JStr ''Alasan tidak diketahui'')))
                       ''error''])))))"

text \<open>
  Lines 149 to 157, the \<^verbatim>\<open>catch\<close> block: the message of the error, the body of
  \<^verbatim>\<open>error.response\<close> when there is one, and the closing line.
\<close>

definition sendTele_catch :: "js_error \<Rightarrow> (js_error + unit) \<times> effect list" where
  "sendTele_catch err =
     (let first =
            [ConsoleError
               [Styled Red (''[ERROR TELEGRAM] Error saat mengirim pesan Telegram: ''
                            @ message err)]];
          closing =
            [logStyled
               ''Notifikasi Telegram gagal terkirim karena kesalahan koneksi atau API.''
               ''error'']
      in if truthy (response err)
         then (case get_prop (response err) ''data'' of
                 Inl thrown \<Rightarrow> (Inl thrown, first)
               | Inr d \<Rightarrow>
                   (Inr (),
                    first
                    @ [ConsoleError
                         [Styled Red (''[ERROR TELEGRAM RAW] Respons API Telegram: ''
                                      @ to_string (JSON_stringify 0 d))]]
                    @ closing))
         else (Inr (), first @ closing))"

text \<open>
  Lines 130 to 141, up to the \<^verbatim>\<open>await\<close>: the message is escaped and wrapped in a code
  block, a progress line is logged and the one outbound \<^verbatim>\<open>POST\<close> is issued.
\<close>

definition sendTele_post :: "globals \<Rightarrow> string \<Rightarrow> effect list" where
  "sendTele_post g rawMessage =
     (let escapedMessage = escapeMarkdownV2 rawMessage;
          fullText = [CHR 0x60, CHR 0x60, CHR 0x60, newline] @ escapedMessage
                     @ [newline, CHR 0x60, CHR 0x60, CHR 0x60]
      in [logStyled ''Mencoba mengirim notifikasi ke Telegram...'' ''info'',
          HttpPost (''https://api.telegram.org/bot'' @ to_string (token g) @ ''/sendMessage'')
            (JObj [(''chat_id'', JStr (to_string (chatid g))),
                   (''text'', JStr fullText),
                   (''parse_mode'', JStr ''MarkdownV2'')])])"

text \<open>
  \<^verbatim>\<open>sendTele(rawMessage)\<close>, lines 98 to 158, for a text \<open>rawMessage\<close>; \<open>api\<close> is what
  the call to the messaging API does. The promise of the \<^verbatim>\<open>async\<close> function is
  fulfilled with \<^verbatim>\<open>undefined\<close> (\<open>Inr ()\<close>) or rejected (\<open>Inl\<close>).
\<close>

definition sendTele :: "globals \<Rightarrow> string \<Rightarrow> outcome \<Rightarrow> (js_error + unit) \<times> effect list" where
  "sendTele g rawMessage api =
     (if \<not> truthy (token g) \<or> \<not> truthy (chatid g)
      then (Inr (),
            [logStyled
               ''Token bot Telegram atau Chat ID belum dikonfigurasi di global. Pesan tidak terkirim.''
               ''warn''])
      else
        (case sendTele_try api of
           Inr logged \<Rightarrow> (Inr (), sendTele_post g rawMessage @ logged)
         | Inl err \<Rightarrow>
             (let (result, logged) = sendTele_catch err
              in (result, sendTele_post g rawMessage @ logged))))"

section \<open>The inverse of the escaping\<close>

text \<open>
  Modelled from the spec: the reverse of one substitution of section 4.3, which is no
  function of the source. It is the global replacement of the two characters backslash
  and \<open>c\<close> by \<open>c\<close>; matches are found from the left and do not overlap, as
  \<^verbatim>\<open>String.prototype.replace\<close> finds them.
\<close>

fun unreplace_global :: "char \<Rightarrow> string \<Rightarrow> string" where
  "unreplace_global c (x # y # s) =
     (if x = backslash \<and> y = c then c # unreplace_global c s
      else x # unreplace_global c (y # s))"
| "unreplace_global c s = s"

text \<open>
  Modelled from the spec: the inverse unescape of section 4.3, ``reversing each
  substitution'', which is no function of the source. The eighteen substitutions are
  undone one by one, last to first.
\<close>

definition unescapeMarkdownV2 :: "string \<Rightarrow> string" where
  "unescapeMarkdownV2 text = fold unreplace_global (rev reserved) text"

section \<open>Notions used to state the properties\<close>

text \<open>
  The value of a property read, \<^verbatim>\<open>undefined\<close> where the read would throw; and whether a
  value exposes a property, that is, holds something other than \<^verbatim>\<open>undefined\<close> and
  \<^verbatim>\<open>null\<close> under that name.
\<close>

definition field :: "jsval \<Rightarrow> string \<Rightarrow> jsval" where
  "field v p = (case get_prop v p of Inr x \<Rightarrow> x | Inl e \<Rightarrow> JUndefined)"

definition exposes :: "jsval \<Rightarrow> string \<Rightarrow> bool" where
  "exposes v p = (field v p \<noteq> JUndefined \<and> field v p \<noteq> JNull)"

text \<open>
  A request from which line 46 can read an address: it exposes a headers mapping, and a
  connection object unless the forwarded-for header is truthy.
\<close>

definition addressable :: "jsval \<Rightarrow> bool" where
  "addressable req =
     (exposes req ''headers'' \<and>
      (truthy (field (field req ''headers'') ''x-forwarded-for'') \<or> exposes req ''connection''))"

text \<open>
  A value that is a non-empty text; a value that is a text or is absent; a value that is
  an object or is absent.
\<close>

definition nonempty_text :: "jsval \<Rightarrow> bool" where
  "nonempty_text v = (case v of JStr s \<Rightarrow> s \<noteq> [] | _ \<Rightarrow> False)"

definition text_or_absent :: "jsval \<Rightarrow> bool" where
  "text_or_absent v = (case v of JStr s \<Rightarrow> True | JUndefined \<Rightarrow> True | _ \<Rightarrow> False)"

definition mapping_or_absent :: "jsval \<Rightarrow> bool" where
  "mapping_or_absent v = (case v of JObj kvs \<Rightarrow> True | JUndefined \<Rightarrow> True | _ \<Rightarrow> False)"

text \<open>
  A request typed as the request object of an HTTP server is: the six sources of the
  textual fields are each a text or absent, the query and the headers are each a
  mapping or absent.
\<close>

definition typed_sources :: "jsval \<Rightarrow> bool" where
  "typed_sources req =
     (text_or_absent (field (field req ''headers'') ''x-forwarded-for'') \<and>
      text_or_absent (field (field req ''connection'') ''remoteAddress'') \<and>
      text_or_absent (field (field req ''headers'') ''user-agent'') \<and>
      text_or_absent (field req ''method'') \<and>
      text_or_absent (field req ''originalUrl'') \<and>
      text_or_absent (field req ''url'') \<and>
      mapping_or_absent (field req ''query'') \<and>
      mapping_or_absent (field req ''headers''))"

text \<open>
  The body of the answer of the geolocation service (\<^verbatim>\<open>undefined\<close> when the call was
  rejected), and whether the answer reports the status \<^verbatim>\<open>success\<close>.
\<close>

definition geo_body :: "outcome \<Rightarrow> jsval" where
  "geo_body geo = (case geo of Resolved res \<Rightarrow> field res ''data'' | Rejected err \<Rightarrow> JUndefined)"

definition lookup_succeeded :: "outcome \<Rightarrow> bool" where
  "lookup_succeeded geo = (field (geo_body geo) ''status'' = JStr ''success'')"

text \<open>The escaping in one pass: a backslash before each character of \<open>S\<close>.\<close>

definition escape_in :: "char set \<Rightarrow> string \<Rightarrow> string" where
  "escape_in S text = concat (map (\<lambda>x. if x \<in> S then [backslash, x] else [x]) text)"

section \<open>Worked inputs\<close>

text \<open>
  Concrete inputs on which the properties below are evaluated: a request as an HTTP
  server hands it over, a request object with empty headers and connection, the
  responses of the two services used as examples in the specification, and a transport
  error.
\<close>

definition example_request :: jsval where
  "example_request =
     JObj [(''headers'', JObj [(''host'', JStr ''example.org''), (''user-agent'', JStr ''curl/8.0'')]),
           (''connection'', JObj [(''remoteAddress'', JStr ''203.0.113.7'')]),
           (''method'', JStr ''GET''),
           (''originalUrl'', JStr ''/admin/login''),
           (''url'', JStr ''/login''),
           (''query'', JObj [(''page'', JStr ''1'')])]"

definition bare_request :: jsval where
  "bare_request = JObj [(''headers'', JObj []), (''connection'', JObj [])]"

definition jakarta_response :: jsval where
  "jakarta_response =
     JObj [(''data'', JObj [(''status'', JStr ''success''), (''city'', JStr ''Jakarta''),
                           (''regionName'', JStr ''DKI Jakarta''), (''country'', JStr ''Indonesia''),
                           (''lat'', JNum ''-6.2''), (''lon'', JNum ''106.8'')])]"

definition invalid_query_response :: jsval where
  "invalid_query_response =
     JObj [(''data'', JObj [(''status'', JStr ''fail''), (''message'', JStr ''invalid query'')])]"

definition chat_not_found_response :: jsval where
  "chat_not_found_response =
     JObj [(''data'', JObj [(''ok'', JBool False), (''description'', JStr ''chat not found'')])]"

definition example_clock :: wall_clock where
  "example_clock =
     \<lparr>clock_day = 1, clock_month = 11, clock_year = 2026,
      clock_hour = 10, clock_minute = 0, clock_second = 0\<rparr>"

definition timeout_error :: js_error where
  "timeout_error = JsError ''AxiosError'' ''timeout of 1000ms exceeded'' JUndefined"

section \<open>The escaping as one pass\<close>

text \<open>
  No replacement inserts a character that a later replacement looks for (only
  backslashes are inserted, and the backslash is not reserved), so the eighteen chained
  replacements amount to one pass over the text.
\<close>

lemma reserved_distinct: "distinct reserved"
  by (simp add: reserved_def)

lemma backslash_not_reserved: "backslash \<notin> set reserved"
  by (simp add: reserved_def backslash_def)

lemma escape_in_empty: "escape_in {} t = t"
  by (induction t) (simp_all add: escape_in_def)

lemma escape_in_Cons:
  "escape_in S (x # t) = (if x \<in> S then backslash # x # escape_in S t else x # escape_in S t)"
  by (simp add: escape_in_def)

lemma escape_in_Nil: "escape_in S [] = []"
  by (simp add: escape_in_def)

lemma replace_global_Cons:
  "replace_global c (x # t) = (if x = c then backslash # c # replace_global c t else x # replace_global c t)"
  by (simp add: replace_global_def)

lemma replace_global_escape_in:
  assumes "c \<notin> S" "c \<noteq> backslash"
  shows "replace_global c (escape_in S t) = escape_in (insert c S) t"
  using assms by (induction t) (auto simp: escape_in_Cons escape_in_Nil replace_global_Cons replace_global_def)

lemma fold_replace_escape_in:
  "distinct cs \<Longrightarrow> set cs \<inter> S = {} \<Longrightarrow> backslash \<notin> set cs \<Longrightarrow>
   fold replace_global cs (escape_in S t) = escape_in (S \<union> set cs) t"
proof (induction cs arbitrary: S)
  case Nil
  then show ?case by simp
next
  case (Cons c cs)
  from Cons.prems have c: "c \<notin> S" "c \<noteq> backslash" by auto
  have "fold replace_global (c # cs) (escape_in S t) = fold replace_global cs (escape_in (insert c S) t)"
    by (simp add: replace_global_escape_in[OF c])
  also have "\<dots> = escape_in (insert c S \<union> set cs) t"
    using Cons.prems by (intro Cons.IH) auto
  finally show ?case by simp
qed

lemma escape_single_pass: "escapeMarkdownV2 t = escape_in (set reserved) t"
  using fold_replace_escape_in[of reserved "{}" t] reserved_distinct backslash_not_reserved
  by (simp add: escapeMarkdownV2_def escape_in_empty)

lemma unreplace_skip:
  "s = [] \<or> x \<noteq> backslash \<or> hd s \<noteq> c \<Longrightarrow> unreplace_global c (x # s) = x # unreplace_global c s"
  by (cases s) auto

lemma escape_in_hd:
  "c \<in> S \<Longrightarrow> c \<noteq> backslash \<Longrightarrow> escape_in S t = [] \<or> hd (escape_in S t) \<noteq> c"
  by (cases t) (auto simp: escape_in_Cons escape_in_Nil)

lemma unreplace_escape_in:
  assumes "c \<in> S" "c \<noteq> backslash" "backslash \<notin> S"
  shows "unreplace_global c (escape_in S t) = escape_in (S - {c}) t"
proof (induction t)
  case Nil
  then show ?case by (simp add: escape_in_Nil)
next
  case (Cons x t)
  show ?case
  proof (cases "x = c")
    case True
    then show ?thesis using assms Cons by (simp add: escape_in_Cons)
  next
    case False
    note xc = this
    show ?thesis
    proof (cases "x \<in> S")
      case True
      with assms have xb: "x \<noteq> backslash" by auto
      have "unreplace_global c (backslash # x # escape_in S t) = backslash # unreplace_global c (x # escape_in S t)"
        using xc by simp
      also have "unreplace_global c (x # escape_in S t) = x # unreplace_global c (escape_in S t)"
        using xb by (simp add: unreplace_skip)
      finally show ?thesis using True xc Cons by (simp add: escape_in_Cons)
    next
      case False
      have "unreplace_global c (x # escape_in S t) = x # unreplace_global c (escape_in S t)"
        using escape_in_hd[OF assms(1,2), of t] by (intro unreplace_skip) auto
      then show ?thesis using False Cons by (simp add: escape_in_Cons)
    qed
  qed
qed

lemma fold_unreplace_escape_in:
  "distinct cs \<Longrightarrow> set cs \<subseteq> S \<Longrightarrow> backslash \<notin> S \<Longrightarrow>
   fold unreplace_global cs (escape_in S t) = escape_in (S - set cs) t"
proof (induction cs arbitrary: S)
  case Nil
  then show ?case by simp
next
  case (Cons c cs)
  from Cons.prems have c: "c \<in> S" "c \<noteq> backslash" "backslash \<notin> S" by auto
  have "fold unreplace_global (c # cs) (escape_in S t) = fold unreplace_global cs (escape_in (S - {c}) t)"
    by (simp add: unreplace_escape_in[OF c])
  also have "\<dots> = escape_in (S - {c} - set cs) t"
    using Cons.prems by (intro Cons.IH) auto
  also have "S - {c} - set cs = S - set (c # cs)" by auto
  finally show ?case .
qed

text \<open>
  Claim C2. Escaping a text with \<^verbatim>\<open>escapeMarkdownV2\<close> and then undoing each
  substitution reproduces the text. This holds for every text, and so for every text
  made of reserved characters and of ordinary characters (neither reserved nor a
  backslash).
\<close>

theorem escape_unescape_roundtrip:
  "unescapeMarkdownV2 (escapeMarkdownV2 text) = text"
  using fold_unreplace_escape_in[of "rev reserved" "set reserved" "text"]
    reserved_distinct backslash_not_reserved
  by (simp add: unescapeMarkdownV2_def escape_single_pass escape_in_empty)

theorem escape_unescape_roundtrip_witness:
  "unescapeMarkdownV2 (escapeMarkdownV2 ''a.-b_[x](y)!'') = ''a.-b_[x](y)!''"
  using escape_unescape_roundtrip[of "''a.-b_[x](y)!''"] by simp

lemma escape_in_preceded:
  "backslash \<notin> S \<Longrightarrow> i < length (escape_in S t) \<Longrightarrow> escape_in S t ! i \<in> S \<Longrightarrow>
   0 < i \<and> escape_in S t ! (i - 1) = backslash"
proof (induction t arbitrary: i)
  case Nil
  then show ?case by (simp add: escape_in_Nil)
next
  case (Cons x t)
  show ?case
  proof (cases "x \<in> S")
    case True
    then have out: "escape_in S (x # t) = backslash # x # escape_in S t"
      by (simp add: escape_in_Cons)
    consider "i = 0" | "i = 1" | j where "i = Suc (Suc j)"
      by (cases i) (auto, metis not0_implies_Suc)
    then show ?thesis
    proof cases
      case 1
      with Cons.prems out show ?thesis by simp
    next
      case 2
      with out show ?thesis by simp
    next
      case (3 j)
      with Cons.prems out have "j < length (escape_in S t)" "escape_in S t ! j \<in> S" by simp_all
      from Cons.IH[OF Cons.prems(1) this] 3 out show ?thesis
        by (cases j) simp_all
    qed
  next
    case False
    then have out: "escape_in S (x # t) = x # escape_in S t"
      by (simp add: escape_in_Cons)
    show ?thesis
    proof (cases i)
      case 0
      with Cons.prems out False show ?thesis by simp
    next
      case (Suc j)
      with Cons.prems out have "j < length (escape_in S t)" "escape_in S t ! j \<in> S" by simp_all
      from Cons.IH[OF Cons.prems(1) this] Suc out show ?thesis
        by (cases j) simp_all
    qed
  qed
qed

text \<open>
  Claim C3. In the output of \<^verbatim>\<open>escapeMarkdownV2\<close>, for every input text, every
  occurrence of a reserved character stands immediately after a backslash: the chained
  global replacements leave no reserved character without one.
\<close>

theorem escape_reserved_preceded:
  "i < length (escapeMarkdownV2 text) \<Longrightarrow> escapeMarkdownV2 text ! i \<in> set reserved \<Longrightarrow>
   0 < i \<and> escapeMarkdownV2 text ! (i - 1) = backslash"
  using escape_in_preceded[OF backslash_not_reserved, of i "text"]
  by (simp add: escape_single_pass)

theorem escape_reserved_preceded_witness:
  "2 < length (escapeMarkdownV2 ''a.-b'') \<and> escapeMarkdownV2 ''a.-b'' ! 2 \<in> set reserved \<and>
   0 < (2::nat) \<and> escapeMarkdownV2 ''a.-b'' ! (2 - 1) = backslash"
proof -
  have e: "escapeMarkdownV2 ''a.-b'' = [CHR ''a'', backslash, CHR ''.'', backslash, CHR ''-'', CHR ''b'']"
    by (simp add: escapeMarkdownV2_def reserved_def replace_global_def backslash_def)
  have h1: "2 < length (escapeMarkdownV2 ''a.-b'')" by (simp add: e)
  have h2: "escapeMarkdownV2 ''a.-b'' ! 2 \<in> set reserved" by (simp add: e reserved_def)
  from escape_reserved_preceded[OF h1 h2] h1 h2 show ?thesis by simp
qed

section \<open>Reading the request\<close>

text \<open>
  On a request from which line 46 can read an address, none of the reads of lines 46 to
  53 throws, and each field of the snapshot is the value of its expression.
\<close>

lemma and_then_Inr: "and_then (Inr v) f = f v"
  by (simp add: and_then_def)

lemma and_then_Inl: "and_then (Inl e) f = Inl e"
  by (simp add: and_then_def)

lemma get_prop_field:
  "v \<noteq> JUndefined \<Longrightarrow> v \<noteq> JNull \<Longrightarrow> get_prop v p = Inr (field v p)"
  by (cases v) (simp_all add: field_def)

lemma truthy_defined: "truthy v \<Longrightarrow> v \<noteq> JUndefined \<and> v \<noteq> JNull"
  by (cases v) simp_all

lemma exposes_defined: "exposes v p \<Longrightarrow> v \<noteq> JUndefined \<and> v \<noteq> JNull"
  by (cases v) (simp_all add: exposes_def field_def)

lemma addressable_req: "addressable req \<Longrightarrow> req \<noteq> JUndefined \<and> req \<noteq> JNull"
  using exposes_defined[of req "''headers''"] by (simp add: addressable_def)

lemma getRequest_ip_eq:
  assumes "addressable req"
  shows "getRequest_ip req =
           Inr (js_or (field (field req ''headers'') ''x-forwarded-for'')
                  (js_or (field (field req ''connection'') ''remoteAddress'') (JStr ''Unknown IP'')))"
proof -
  from assms have r: "req \<noteq> JUndefined" "req \<noteq> JNull" using addressable_req by auto
  from assms have h: "field req ''headers'' \<noteq> JUndefined" "field req ''headers'' \<noteq> JNull"
    by (simp_all add: addressable_def exposes_def)
  show ?thesis
  proof (cases "truthy (field (field req ''headers'') ''x-forwarded-for'')")
    case True
    then show ?thesis
      by (simp add: getRequest_ip_def get_prop_field[OF r] get_prop_field[OF h] and_then_Inr js_or_def)
  next
    case False
    with assms have c: "field req ''connection'' \<noteq> JUndefined" "field req ''connection'' \<noteq> JNull"
      by (simp_all add: addressable_def exposes_def)
    from False show ?thesis
      by (simp add: getRequest_ip_def get_prop_field[OF r] get_prop_field[OF h] get_prop_field[OF c]
            and_then_Inr js_or_def)
  qed
qed

lemma getRequest_userAgent_eq:
  assumes "addressable req"
  shows "getRequest_userAgent req =
           Inr (js_or (field (field req ''headers'') ''user-agent'') (JStr ''Unknown User-Agent''))"
proof -
  from assms have r: "req \<noteq> JUndefined" "req \<noteq> JNull" using addressable_req by auto
  from assms have h: "field req ''headers'' \<noteq> JUndefined" "field req ''headers'' \<noteq> JNull"
    by (simp_all add: addressable_def exposes_def)
  show ?thesis
    by (simp add: getRequest_userAgent_def get_prop_field[OF r] get_prop_field[OF h] and_then_Inr)
qed

lemma getRequest_method_eq:
  assumes "req \<noteq> JUndefined" "req \<noteq> JNull"
  shows "getRequest_method req = Inr (js_or (field req ''method'') (JStr ''Unknown Method''))"
  by (simp add: getRequest_method_def get_prop_field[OF assms] and_then_Inr)

lemma getRequest_url_eq:
  assumes "req \<noteq> JUndefined" "req \<noteq> JNull"
  shows "getRequest_url req =
           Inr (js_or (field req ''originalUrl'') (js_or (field req ''url'') (JStr ''Unknown URL'')))"
  by (simp add: getRequest_url_def get_prop_field[OF assms] and_then_Inr js_or_def)

lemma getRequest_query_eq:
  assumes "req \<noteq> JUndefined" "req \<noteq> JNull"
  shows "getRequest_query req =
           Inr (if truthy (field req ''query'') then JSON_stringify 2 (field req ''query'')
                else JStr ''{}'')"
  by (simp add: getRequest_query_def get_prop_field[OF assms] and_then_Inr)

lemma getRequest_headers_eq:
  assumes "req \<noteq> JUndefined" "req \<noteq> JNull"
  shows "getRequest_headers req =
           Inr (if truthy (field req ''headers'') then JSON_stringify 2 (field req ''headers'')
                else JStr ''{}'')"
  by (simp add: getRequest_headers_def get_prop_field[OF assms] and_then_Inr)

lemma getRequest_eq:
  assumes "addressable req"
  shows "getRequest req now geo =
     (Inr \<lparr>ip = js_or (field (field req ''headers'') ''x-forwarded-for'')
                  (js_or (field (field req ''connection'') ''remoteAddress'') (JStr ''Unknown IP'')),
           userAgent = js_or (field (field req ''headers'') ''user-agent'') (JStr ''Unknown User-Agent''),
           method = js_or (field req ''method'') (JStr ''Unknown Method''),
           url = js_or (field req ''originalUrl'') (js_or (field req ''url'') (JStr ''Unknown URL'')),
           query = (if truthy (field req ''query'') then JSON_stringify 2 (field req ''query'')
                    else JStr ''{}''),
           headers = (if truthy (field req ''headers'') then JSON_stringify 2 (field req ''headers'')
                      else JStr ''{}''),
           location = fst (getRequest_location
                       (js_or (field (field req ''headers'') ''x-forwarded-for'')
                          (js_or (field (field req ''connection'') ''remoteAddress'') (JStr ''Unknown IP'')))
                       geo),
           timestamp = now\<rparr>,
      snd (getRequest_location
             (js_or (field (field req ''headers'') ''x-forwarded-for'')
                (js_or (field (field req ''connection'') ''remoteAddress'') (JStr ''Unknown IP'')))
             geo))"
proof -
  from assms have r: "req \<noteq> JUndefined" "req \<noteq> JNull" using addressable_req by auto
  show ?thesis
    unfolding getRequest_def
    by (simp add: getRequest_ip_eq[OF assms] getRequest_userAgent_eq[OF assms]
          getRequest_method_eq[OF r] getRequest_url_eq[OF r] getRequest_query_eq[OF r]
          getRequest_headers_eq[OF r] and_then_Inr split_beta)
qed

text \<open>
  Conversely, on any other request line 46 throws and the promise is rejected before the
  lookup is issued, whatever the geolocation service would do.
\<close>

lemma getRequest_rejects_unaddressable:
  assumes "\<not> addressable req"
  shows "\<exists>e. getRequest req now geo = (Inl e, [])"
proof -
  have "\<exists>e. getRequest_ip req = Inl e"
  proof (cases "exposes req ''headers''")
    case False
    then show ?thesis
      by (cases req) (auto simp: getRequest_ip_def exposes_def field_def and_then_def split: option.splits sum.splits)
  next
    case True
    then have r: "req \<noteq> JUndefined" "req \<noteq> JNull" using exposes_defined by auto
    from True have h: "field req ''headers'' \<noteq> JUndefined" "field req ''headers'' \<noteq> JNull"
      by (simp_all add: exposes_def)
    from True assms have nt: "\<not> truthy (field (field req ''headers'') ''x-forwarded-for'')"
      and nc: "\<not> exposes req ''connection''" by (simp_all add: addressable_def)
    from nc have "field req ''connection'' = JUndefined \<or> field req ''connection'' = JNull"
      by (simp add: exposes_def)
    then show ?thesis using nt
      by (auto simp: getRequest_ip_def get_prop_field[OF r] get_prop_field[OF h] and_then_Inr and_then_Inl)
  qed
  then show ?thesis by (auto simp: getRequest_def and_then_Inl)
qed

section \<open>The location on each path\<close>

lemma getRequest_location_rejected:
  "getRequest_location ipv (Rejected err) =
     (''Error saat mengambil lokasi: '' @ message err,
      getRequest_lookup ipv @ snd (getRequest_catch ipv err))"
  by (simp add: getRequest_location_def getRequest_try_def getRequest_catch_def)

lemma status_success_object:
  "field d ''status'' = JStr ''success'' \<Longrightarrow> truthy d \<and> d \<noteq> JUndefined \<and> d \<noteq> JNull"
  by (cases d) (simp_all add: field_def)

lemma field_defined: "field v p \<noteq> JUndefined \<Longrightarrow> v \<noteq> JUndefined \<and> v \<noteq> JNull"
  by (cases v) (simp_all add: field_def)

lemma getRequest_try_success:
  assumes "field (field res ''data'') ''status'' = JStr ''success''"
  shows "getRequest_try (Resolved res) = getRequest_found res"
    and "\<exists>logged. getRequest_found res =
           Inr (to_string (field (field res ''data'') ''city'') @ '', ''
                @ to_string (field (field res ''data'') ''regionName'') @ '', ''
                @ to_string (field (field res ''data'') ''country''), logged)"
proof -
  from assms have d: "truthy (field res ''data'')" "field res ''data'' \<noteq> JUndefined"
    "field res ''data'' \<noteq> JNull"
    using status_success_object by auto
  from d(2) have r: "res \<noteq> JUndefined" "res \<noteq> JNull" using field_defined by auto
  show "getRequest_try (Resolved res) = getRequest_found res"
    using assms d(1)
    by (simp add: getRequest_try_def getRequest_is_success_def get_prop_field[OF r]
          get_prop_field[OF d(2,3)] and_then_Inr)
  show "\<exists>logged. getRequest_found res =
           Inr (to_string (field (field res ''data'') ''city'') @ '', ''
                @ to_string (field (field res ''data'') ''regionName'') @ '', ''
                @ to_string (field (field res ''data'') ''country''), logged)"
    by (simp add: getRequest_found_def get_prop_field[OF r] get_prop_field[OF d(2,3)] and_then_Inr Let_def)
qed

lemma getRequest_location_success:
  assumes "field (field res ''data'') ''status'' = JStr ''success''"
  shows "fst (getRequest_location ipv (Resolved res)) =
           to_string (field (field res ''data'') ''city'') @ '', ''
           @ to_string (field (field res ''data'') ''regionName'') @ '', ''
           @ to_string (field (field res ''data'') ''country'')"
proof -
  from getRequest_try_success(2)[OF assms] obtain logged where
    "getRequest_found res =
           Inr (to_string (field (field res ''data'') ''city'') @ '', ''
                @ to_string (field (field res ''data'') ''regionName'') @ '', ''
                @ to_string (field (field res ''data'') ''country''), logged)" by blast
  then show ?thesis
    by (simp add: getRequest_location_def getRequest_try_success(1)[OF assms])
qed

lemma getRequest_location_failure:
  assumes "exposes res ''data''" "field (field res ''data'') ''status'' \<noteq> JStr ''success''"
  shows "fst (getRequest_location ipv (Resolved res)) =
           ''Gagal mendapatkan lokasi: ''
           @ (if truthy (field (field res ''data'') ''message'')
              then to_string (field (field res ''data'') ''message'')
              else ''Error tidak diketahui dari ip-api.com'')"
proof -
  from assms(1) have d: "field res ''data'' \<noteq> JUndefined" "field res ''data'' \<noteq> JNull"
    by (simp_all add: exposes_def)
  from assms(1) have r: "res \<noteq> JUndefined" "res \<noteq> JNull" using exposes_defined by auto
  have t: "getRequest_try (Resolved res) = getRequest_not_found res"
    using assms(2)
    by (simp add: getRequest_try_def getRequest_is_success_def get_prop_field[OF r]
          get_prop_field[OF d] and_then_Inr)
  show ?thesis
    by (simp add: getRequest_location_def t getRequest_not_found_def get_prop_field[OF r]
          get_prop_field[OF d] and_then_Inr Let_def js_or_def)
qed

lemma getRequest_location_no_body:
  assumes "res \<noteq> JUndefined" "res \<noteq> JNull" "\<not> exposes res ''data''"
  shows "\<exists>e. get_prop (field res ''data'') ''message'' = Inl e \<and>
             fst (getRequest_location ipv (Resolved res)) = ''Error saat mengambil lokasi: '' @ message e"
proof -
  from assms(3) have "field res ''data'' = JUndefined \<or> field res ''data'' = JNull"
    by (simp add: exposes_def)
  then show ?thesis
    by (auto simp: getRequest_location_def getRequest_try_def getRequest_is_success_def
          getRequest_not_found_def get_prop_field[OF assms(1,2)] and_then_Inr and_then_Inl
          getRequest_catch_def)
qed

lemma getRequest_found_shape:
  "getRequest_found res = Inr (loc, logged) \<Longrightarrow> \<exists>a b. loc = a @ '', '' @ b"
  by (auto simp: getRequest_found_def and_then_def Let_def split: sum.splits)

lemma getRequest_not_found_shape:
  "getRequest_not_found res = Inr (loc, logged) \<Longrightarrow> \<exists>a. loc = ''Gagal mendapatkan lokasi: '' @ a"
  by (auto simp: getRequest_not_found_def and_then_def Let_def split: sum.splits)

lemma getRequest_try_shape:
  assumes "getRequest_try geo = Inr (loc, logged)"
  shows "(\<exists>a b. loc = a @ '', '' @ b) \<or> (\<exists>a. loc = ''Gagal mendapatkan lokasi: '' @ a)"
proof (cases geo)
  case (Rejected err)
  with assms show ?thesis by (simp add: getRequest_try_def)
next
  case (Resolved res)
  with assms obtain b where "getRequest_is_success res = Inr b"
    and "(if b then getRequest_found res else getRequest_not_found res) = Inr (loc, logged)"
    by (auto simp: getRequest_try_def and_then_def split: sum.splits)
  then show ?thesis
    using getRequest_found_shape[of res loc logged] getRequest_not_found_shape[of res loc logged]
    by (cases b) auto
qed

lemma getRequest_location_shape:
  "(\<exists>a b. fst (getRequest_location ipv geo) = a @ '', '' @ b) \<or>
   (\<exists>a. fst (getRequest_location ipv geo) = ''Gagal mendapatkan lokasi: '' @ a) \<or>
   (\<exists>a. fst (getRequest_location ipv geo) = ''Error saat mengambil lokasi: '' @ a)"
proof (cases "getRequest_try geo")
  case (Inl err)
  then show ?thesis by (simp add: getRequest_location_def getRequest_catch_def)
next
  case (Inr r)
  obtain loc logged where r: "r = (loc, logged)" by (cases r)
  with Inr getRequest_try_shape[of geo loc logged] show ?thesis
    by (auto simp: getRequest_location_def)
qed

lemma comma_text_not_literal: "a @ '', '' @ b \<noteq> ''Lokasi tidak diketahui''"
proof
  assume "a @ '', '' @ b = ''Lokasi tidak diketahui''"
  then have "set (a @ '', '' @ b) = set ''Lokasi tidak diketahui''" by simp
  moreover have "CHR '','' \<in> set (a @ '', '' @ b)" by simp
  ultimately have "CHR '','' \<in> set ''Lokasi tidak diketahui''" by simp
  then show False by simp
qed

lemma getRequest_location_text:
  "fst (getRequest_location ipv geo) \<noteq> [] \<and>
   fst (getRequest_location ipv geo) \<noteq> ''Lokasi tidak diketahui''"
  using getRequest_location_shape[of ipv geo] comma_text_not_literal
  by (elim disjE exE) (simp_all)

lemma getRequest_is_success_True:
  assumes "getRequest_is_success res = Inr True"
  shows "field (field res ''data'') ''status'' = JStr ''success''"
proof -
  from assms obtain d where d: "get_prop res ''data'' = Inr d"
    by (cases "get_prop res ''data''") (simp_all add: getRequest_is_success_def and_then_def)
  with assms have t: "truthy d"
    by (cases "truthy d") (simp_all add: getRequest_is_success_def and_then_def)
  from assms d t obtain st where st: "get_prop d ''status'' = Inr st"
    by (cases "get_prop d ''status''") (simp_all add: getRequest_is_success_def and_then_def)
  from assms d t st have "st = JStr ''success''"
    by (simp add: getRequest_is_success_def and_then_def)
  moreover from d have "field res ''data'' = d" by (simp add: field_def)
  moreover from st have "field d ''status'' = st" by (simp add: field_def)
  ultimately show ?thesis by simp
qed

lemma getRequest_location_explanatory:
  assumes "\<not> lookup_succeeded geo"
  shows "(\<exists>a. fst (getRequest_location ipv geo) = ''Gagal mendapatkan lokasi: '' @ a) \<or>
         (\<exists>a. fst (getRequest_location ipv geo) = ''Error saat mengambil lokasi: '' @ a)"
proof (cases "getRequest_try geo")
  case (Inl err)
  then show ?thesis by (simp add: getRequest_location_def getRequest_catch_def)
next
  case (Inr r)
  obtain loc logged where r: "r = (loc, logged)" by (cases r)
  from Inr obtain res where res: "geo = Resolved res"
    by (cases geo) (simp_all add: getRequest_try_def)
  from Inr r res obtain b where b: "getRequest_is_success res = Inr b"
    and br: "(if b then getRequest_found res else getRequest_not_found res) = Inr (loc, logged)"
    by (auto simp: getRequest_try_def and_then_def split: sum.splits)
  have "\<not> b"
  proof
    assume b
    with b have "field (field res ''data'') ''status'' = JStr ''success''"
      using getRequest_is_success_True by simp
    with assms res show False by (simp add: lookup_succeeded_def geo_body_def)
  qed
  with br have "getRequest_not_found res = Inr (loc, logged)" by simp
  from getRequest_not_found_shape[OF this] Inr r show ?thesis
    by (auto simp: getRequest_location_def)
qed

lemma getRequest_location_composed:
  assumes "lookup_succeeded geo"
  shows "fst (getRequest_location ipv geo) =
           to_string (field (geo_body geo) ''city'') @ '', ''
           @ to_string (field (geo_body geo) ''regionName'') @ '', ''
           @ to_string (field (geo_body geo) ''country'')"
proof (cases geo)
  case (Resolved res)
  with assms have "field (field res ''data'') ''status'' = JStr ''success''"
    by (simp add: lookup_succeeded_def geo_body_def)
  from getRequest_location_success[OF this, of ipv] Resolved show ?thesis
    by (simp add: geo_body_def)
next
  case (Rejected err)
  with assms show ?thesis by (simp add: lookup_succeeded_def geo_body_def field_def)
qed

text \<open>The rendering of the clock is never empty; the clock of the worked inputs.\<close>

lemma toLocaleString_id_nonempty: "toLocaleString_id c \<noteq> []"
  by (simp add: toLocaleString_id_def)

lemma example_clock_text: "toLocaleString_id example_clock = ''1/11/2026, 10.00.00''"
  by (simp add: toLocaleString_id_def example_clock_def two_digits_def digit_char_def)

lemma JSON_stringify_mapping:
  "nonempty_text (JSON_stringify n (JObj kvs))"
  by (simp add: JSON_stringify_def nonempty_text_def)

lemma js_or_text:
  "text_or_absent a \<Longrightarrow> nonempty_text b \<Longrightarrow> nonempty_text (js_or a b)"
  by (cases a) (simp_all add: text_or_absent_def nonempty_text_def js_or_def)

section \<open>The promise of \<^verbatim>\<open>sendTele\<close>\<close>

lemma sendTele_catch_resolves: "fst (sendTele_catch err) = Inr ()"
proof (cases "truthy (response err)")
  case True
  then have "get_prop (response err) ''data'' = Inr (field (response err) ''data'')"
    using truthy_defined get_prop_field by blast
  with True show ?thesis by (simp add: sendTele_catch_def Let_def)
next
  case False
  then show ?thesis by (simp add: sendTele_catch_def Let_def)
qed

lemma sendTele_resolves: "fst (sendTele g rawMessage api) = Inr ()"
proof (cases "sendTele_try api")
  case (Inl err)
  with sendTele_catch_resolves[of err] show ?thesis
    by (cases "sendTele_catch err") (simp add: sendTele_def)
next
  case (Inr logged)
  then show ?thesis by (simp add: sendTele_def)
qed

lemma example_request_addressable: "addressable example_request"
  by (simp add: addressable_def exposes_def field_def example_request_def)

lemma bare_request_addressable: "addressable bare_request"
  by (simp add: addressable_def exposes_def field_def bare_request_def)

section \<open>The claims about \<^verbatim>\<open>getRequest\<close> and \<^verbatim>\<open>sendTele\<close>\<close>



text \<open>
  Claim C4. For every address read from a request, if the geolocation service answers
  with the status \<^verbatim>\<open>success\<close>, then \<^verbatim>\<open>getRequest\<close> resolves and the location of the
  snapshot is the city, the region name and the country of the answer, joined by a comma
  and a space.
\<close>

theorem success_location:
  assumes "addressable req"
    and "field (field res ''data'') ''status'' = JStr ''success''"
  shows "\<exists>snap effs. getRequest req now (Resolved res) = (Inr snap, effs) \<and>
           location snap =
             to_string (field (field res ''data'') ''city'') @ '', ''
             @ to_string (field (field res ''data'') ''regionName'') @ '', ''
             @ to_string (field (field res ''data'') ''country'')"
  by (simp add: getRequest_eq[OF assms(1)] getRequest_location_success[OF assms(2)])

theorem success_location_witness:
  "addressable example_request \<and>
   field (field jakarta_response ''data'') ''status'' = JStr ''success'' \<and>
   (\<exists>snap effs. getRequest example_request ''1/11/2026, 10.00.00'' (Resolved jakarta_response)
                   = (Inr snap, effs) \<and>
      location snap = ''Jakarta, DKI Jakarta, Indonesia'')"
proof -
  have h: "field (field jakarta_response ''data'') ''status'' = JStr ''success''"
    by (simp add: jakarta_response_def field_def)
  from success_location[OF example_request_addressable h, of "''1/11/2026, 10.00.00''"]
  show ?thesis using example_request_addressable h
    by (simp add: jakarta_response_def field_def)
qed

text \<open>
  Claim C5. For every address read from a request, if the geolocation service answers
  with a body whose status is not \<^verbatim>\<open>success\<close>, then \<^verbatim>\<open>getRequest\<close> resolves and the
  location of the snapshot is \<^verbatim>\<open>Gagal mendapatkan lokasi: \<close> followed by the message of
  the answer, or by \<^verbatim>\<open>Error tidak diketahui dari ip-api.com\<close> when the answer has no
  (truthy) message.
\<close>

theorem failure_location:
  assumes "addressable req"
    and "exposes res ''data''"
    and "field (field res ''data'') ''status'' \<noteq> JStr ''success''"
  shows "\<exists>snap effs. getRequest req now (Resolved res) = (Inr snap, effs) \<and>
           location snap =
             ''Gagal mendapatkan lokasi: ''
             @ (if truthy (field (field res ''data'') ''message'')
                then to_string (field (field res ''data'') ''message'')
                else ''Error tidak diketahui dari ip-api.com'')"
  by (simp only: getRequest_eq[OF assms(1)] getRequest_location_failure[OF assms(2,3)]) simp

theorem failure_location_witness:
  "addressable example_request \<and> exposes invalid_query_response ''data'' \<and>
   field (field invalid_query_response ''data'') ''status'' \<noteq> JStr ''success'' \<and>
   (\<exists>snap effs. getRequest example_request ''1/11/2026, 10.00.00'' (Resolved invalid_query_response)
                   = (Inr snap, effs) \<and>
      location snap = ''Gagal mendapatkan lokasi: invalid query'')"
proof -
  have h1: "exposes invalid_query_response ''data''"
    by (simp add: invalid_query_response_def exposes_def field_def)
  have h2: "field (field invalid_query_response ''data'') ''status'' \<noteq> JStr ''success''"
    by (simp add: invalid_query_response_def field_def)
  from failure_location[OF example_request_addressable h1 h2, of "''1/11/2026, 10.00.00''"]
  show ?thesis using example_request_addressable h1 h2
    by (simp add: invalid_query_response_def field_def)
qed

text \<open>
  Claim C6. For every raw message, if the bot token or the chat identifier is absent
  (or otherwise falsy), \<^verbatim>\<open>sendTele\<close> resolves after logging one warning and nothing else:
  no outbound call is issued.
\<close>

theorem sendTele_without_credentials:
  assumes "\<not> truthy (token g) \<or> \<not> truthy (chatid g)"
  shows "sendTele g rawMessage api =
           (Inr (),
            [logStyled
               ''Token bot Telegram atau Chat ID belum dikonfigurasi di global. Pesan tidak terkirim.''
               ''warn'']) \<and>
         filter is_http (snd (sendTele g rawMessage api)) = []"
  using assms by (auto simp: sendTele_def logStyled_def is_http_def)

theorem sendTele_without_credentials_witness:
  "\<not> truthy (token \<lparr>token = JUndefined, chatid = JUndefined\<rparr>) \<and>
   sendTele \<lparr>token = JUndefined, chatid = JUndefined\<rparr> ''test'' (Resolved chat_not_found_response) =
     (Inr (),
      [ConsoleLog
         [Styled Yellow ([CHR 0xE2, CHR 0x9A, CHR 0xA0] @ '' [WARNING]''), Plain '' '',
          Styled Yellow
            ''Token bot Telegram atau Chat ID belum dikonfigurasi di global. Pesan tidak terkirim.'']]) \<and>
   filter is_http
     (snd (sendTele \<lparr>token = JUndefined, chatid = JUndefined\<rparr> ''test''
             (Resolved chat_not_found_response))) = []"
proof -
  have h: "\<not> truthy (token \<lparr>token = JUndefined, chatid = JUndefined\<rparr>) \<or>
           \<not> truthy (chatid \<lparr>token = JUndefined, chatid = JUndefined\<rparr>)" by simp
  from sendTele_without_credentials[OF h, of "''test''" "Resolved chat_not_found_response"]
  show ?thesis by (simp add: logStyled_def is_http_def)
qed

text \<open>
  Claim C7, as amended. For every raw message sent with both credentials present,
  \<^verbatim>\<open>sendTele\<close> resolves whatever the messaging API answers. After the \<^verbatim>\<open>POST\<close> it logs
  one of three things. If the \<^verbatim>\<open>ok\<close> field of the body is truthy, the success line. If
  the answer has a body whose \<^verbatim>\<open>ok\<close> field is not truthy, the error line
  \<^verbatim>\<open>Gagal mengirim notifikasi Telegram: \<close> followed by the \<^verbatim>\<open>description\<close> of the body,
  or by \<^verbatim>\<open>Alasan tidak diketahui\<close> when the body has no (truthy) description. If the
  answer has no body (\<^verbatim>\<open>data\<close> is \<^verbatim>\<open>null\<close> or \<^verbatim>\<open>undefined\<close>), the read of \<^verbatim>\<open>ok\<close> throws
  and the \<^verbatim>\<open>catch\<close> block logs the message of that error and the line
  \<^verbatim>\<open>Notifikasi Telegram gagal terkirim karena kesalahan koneksi atau API.\<close>
\<close>

theorem sendTele_response_handling:
  assumes "truthy (token g)" "truthy (chatid g)"
  shows "fst (sendTele g rawMessage (Resolved resp)) = Inr () \<and>
         (truthy (field (field resp ''data'') ''ok'') \<longrightarrow>
            snd (sendTele g rawMessage (Resolved resp)) =
              sendTele_post g rawMessage
              @ [ConsoleLog
                   [Styled Green ([CHR 0xE2, CHR 0x9C, CHR 0x94] @ '' [SUCCESS]''), Plain '' '',
                    Styled Green ''Notifikasi Telegram berhasil terkirim!'']]) \<and>
         (exposes resp ''data'' \<and> \<not> truthy (field (field resp ''data'') ''ok'') \<longrightarrow>
            snd (sendTele g rawMessage (Resolved resp)) =
              sendTele_post g rawMessage
              @ [ConsoleLog
                   [Styled Red ([CHR 0xE2, CHR 0x9C, CHR 0x96] @ '' [ERROR]''), Plain '' '',
                    Styled Red
                      (''Gagal mengirim notifikasi Telegram: ''
                       @ (if truthy (field (field resp ''data'') ''description'')
                          then to_string (field (field resp ''data'') ''description'')
                          else ''Alasan tidak diketahui''))]]) \<and>
         (resp \<noteq> JUndefined \<and> resp \<noteq> JNull \<and> \<not> exposes resp ''data'' \<longrightarrow>
            (\<exists>e. get_prop (field resp ''data'') ''ok'' = Inl e \<and>
               snd (sendTele g rawMessage (Resolved resp)) =
                 sendTele_post g rawMessage
                 @ [ConsoleError
                      [Styled Red (''[ERROR TELEGRAM] Error saat mengirim pesan Telegram: ''
                                   @ message e)],
                    ConsoleLog
                      [Styled Red ([CHR 0xE2, CHR 0x9C, CHR 0x96] @ '' [ERROR]''), Plain '' '',
                       Styled Red
                         ''Notifikasi Telegram gagal terkirim karena kesalahan koneksi atau API.'']]))"
proof (intro conjI impI)
  show "fst (sendTele g rawMessage (Resolved resp)) = Inr ()" by (rule sendTele_resolves)
next
  assume ok: "truthy (field (field resp ''data'') ''ok'')"
  then have d: "field resp ''data'' \<noteq> JUndefined" "field resp ''data'' \<noteq> JNull"
    using truthy_defined field_defined by blast+
  then have r: "resp \<noteq> JUndefined" "resp \<noteq> JNull" using field_defined by blast+
  show "snd (sendTele g rawMessage (Resolved resp)) =
              sendTele_post g rawMessage
              @ [ConsoleLog
                   [Styled Green ([CHR 0xE2, CHR 0x9C, CHR 0x94] @ '' [SUCCESS]''), Plain '' '',
                    Styled Green ''Notifikasi Telegram berhasil terkirim!'']]"
    using assms ok
    by (simp add: sendTele_def sendTele_try_def get_prop_field[OF r] get_prop_field[OF d]
          and_then_Inr logStyled_def)
next
  assume a: "exposes resp ''data'' \<and> \<not> truthy (field (field resp ''data'') ''ok'')"
  then have d: "field resp ''data'' \<noteq> JUndefined" "field resp ''data'' \<noteq> JNull"
    by (simp_all add: exposes_def)
  from a have r: "resp \<noteq> JUndefined" "resp \<noteq> JNull" using exposes_defined by blast+
  show "snd (sendTele g rawMessage (Resolved resp)) =
              sendTele_post g rawMessage
              @ [ConsoleLog
                   [Styled Red ([CHR 0xE2, CHR 0x9C, CHR 0x96] @ '' [ERROR]''), Plain '' '',
                    Styled Red
                      (''Gagal mengirim notifikasi Telegram: ''
                       @ (if truthy (field (field resp ''data'') ''description'')
                          then to_string (field (field resp ''data'') ''description'')
                          else ''Alasan tidak diketahui''))]]"
    using assms a
    by (simp add: sendTele_def sendTele_try_def get_prop_field[OF r] get_prop_field[OF d]
          and_then_Inr js_or_def logStyled_def)
next
  assume a: "resp \<noteq> JUndefined \<and> resp \<noteq> JNull \<and> \<not> exposes resp ''data''"
  then have r: "resp \<noteq> JUndefined" "resp \<noteq> JNull" by simp_all
  from a have "field resp ''data'' = JUndefined \<or> field resp ''data'' = JNull"
    by (simp add: exposes_def)
  then show "\<exists>e. get_prop (field resp ''data'') ''ok'' = Inl e \<and>
               snd (sendTele g rawMessage (Resolved resp)) =
                 sendTele_post g rawMessage
                 @ [ConsoleError
                      [Styled Red (''[ERROR TELEGRAM] Error saat mengirim pesan Telegram: ''
                                   @ message e)],
                    ConsoleLog
                      [Styled Red ([CHR 0xE2, CHR 0x9C, CHR 0x96] @ '' [ERROR]''), Plain '' '',
                       Styled Red
                         ''Notifikasi Telegram gagal terkirim karena kesalahan koneksi atau API.'']]"
    using assms
    by (auto simp: sendTele_def sendTele_try_def sendTele_catch_def get_prop_field[OF r]
          and_then_Inr and_then_Inl type_error_def logStyled_def Let_def)
qed

theorem sendTele_response_handling_witness:
  "truthy (token \<lparr>token = JStr ''123:abc'', chatid = JNum ''42''\<rparr>) \<and>
   truthy (chatid \<lparr>token = JStr ''123:abc'', chatid = JNum ''42''\<rparr>) \<and>
   exposes chat_not_found_response ''data'' \<and>
   \<not> truthy (field (field chat_not_found_response ''data'') ''ok'') \<and>
   sendTele \<lparr>token = JStr ''123:abc'', chatid = JNum ''42''\<rparr> ''a.-b'' (Resolved chat_not_found_response) =
     (Inr (),
      [ConsoleLog
         [Styled Blue ([CHR 0xE2, CHR 0x84, CHR 0xB9] @ '' [INFO]''), Plain '' '',
          Styled Blue ''Mencoba mengirim notifikasi ke Telegram...''],
       HttpPost ''https://api.telegram.org/bot123:abc/sendMessage''
         (JObj [(''chat_id'', JStr ''42''),
                (''text'',
                 JStr ([CHR 0x60, CHR 0x60, CHR 0x60, CHR 0x0A, CHR ''a'', CHR 0x5C, CHR ''.'',
                        CHR 0x5C, CHR ''-'', CHR ''b'', CHR 0x0A, CHR 0x60, CHR 0x60, CHR 0x60])),
                (''parse_mode'', JStr ''MarkdownV2'')]),
       ConsoleLog
         [Styled Red ([CHR 0xE2, CHR 0x9C, CHR 0x96] @ '' [ERROR]''), Plain '' '',
          Styled Red ''Gagal mengirim notifikasi Telegram: chat not found'']])"
proof -
  have h1: "truthy (token \<lparr>token = JStr ''123:abc'', chatid = JNum ''42''\<rparr>)" by simp
  have h2: "truthy (chatid \<lparr>token = JStr ''123:abc'', chatid = JNum ''42''\<rparr>)" by simp
  have h3: "exposes chat_not_found_response ''data''"
    by (simp add: chat_not_found_response_def exposes_def field_def)
  have h4: "\<not> truthy (field (field chat_not_found_response ''data'') ''ok'')"
    by (simp add: chat_not_found_response_def field_def)
  have p: "sendTele_post \<lparr>token = JStr ''123:abc'', chatid = JNum ''42''\<rparr> ''a.-b'' =
      [ConsoleLog
         [Styled Blue ([CHR 0xE2, CHR 0x84, CHR 0xB9] @ '' [INFO]''), Plain '' '',
          Styled Blue ''Mencoba mengirim notifikasi ke Telegram...''],
       HttpPost ''https://api.telegram.org/bot123:abc/sendMessage''
         (JObj [(''chat_id'', JStr ''42''),
                (''text'',
                 JStr ([CHR 0x60, CHR 0x60, CHR 0x60, CHR 0x0A, CHR ''a'', CHR 0x5C, CHR ''.'',
                        CHR 0x5C, CHR ''-'', CHR ''b'', CHR 0x0A, CHR 0x60, CHR 0x60, CHR 0x60])),
                (''parse_mode'', JStr ''MarkdownV2'')])]"
    by (simp add: sendTele_post_def logStyled_def escapeMarkdownV2_def reserved_def
          replace_global_def backslash_def newline_def)
  have d: "field (field chat_not_found_response ''data'') ''description'' = JStr ''chat not found''"
    by (simp add: chat_not_found_response_def field_def)
  from sendTele_response_handling[OF h1 h2, of "''a.-b''" chat_not_found_response] h3 h4
  have "sendTele \<lparr>token = JStr ''123:abc'', chatid = JNum ''42''\<rparr> ''a.-b'' (Resolved chat_not_found_response) =
     (Inr (),
      sendTele_post \<lparr>token = JStr ''123:abc'', chatid = JNum ''42''\<rparr> ''a.-b''
      @ [ConsoleLog
         [Styled Red ([CHR 0xE2, CHR 0x9C, CHR 0x96] @ '' [ERROR]''), Plain '' '',
          Styled Red ''Gagal mengirim notifikasi Telegram: chat not found'']])"
    by (cases "sendTele \<lparr>token = JStr ''123:abc'', chatid = JNum ''42''\<rparr> ''a.-b'' (Resolved chat_not_found_response)")
       (simp add: d)
  then show ?thesis using h1 h2 h3 h4 by (simp add: p)
qed

text \<open>
  Claim C7 as stated fails on an answer without a body: its \<^verbatim>\<open>ok\<close> field is not truthy,
  yet no line with the description or with \<^verbatim>\<open>Alasan tidak diketahui\<close> is logged. The
  read \<^verbatim>\<open>response.data.ok\<close> of line 143 throws inside the \<^verbatim>\<open>try\<close>, and the lines of
  the \<^verbatim>\<open>catch\<close> block are logged instead.
\<close>

theorem response_without_body_logs_transport_lines:
  "\<not> truthy (field (field (JObj [(''data'', JNull)]) ''data'') ''ok'') \<and>
   sendTele \<lparr>token = JStr ''123:abc'', chatid = JNum ''42''\<rparr> ''test'' (Resolved (JObj [(''data'', JNull)])) =
     (Inr (),
      [ConsoleLog
         [Styled Blue ([CHR 0xE2, CHR 0x84, CHR 0xB9] @ '' [INFO]''), Plain '' '',
          Styled Blue ''Mencoba mengirim notifikasi ke Telegram...''],
       HttpPost ''https://api.telegram.org/bot123:abc/sendMessage''
         (JObj [(''chat_id'', JStr ''42''),
                (''text'',
                 JStr ([CHR 0x60, CHR 0x60, CHR 0x60, CHR 0x0A] @ ''test''
                       @ [CHR 0x0A, CHR 0x60, CHR 0x60, CHR 0x60])),
                (''parse_mode'', JStr ''MarkdownV2'')]),
       ConsoleError
         [Styled Red
            (''[ERROR TELEGRAM] Error saat mengirim pesan Telegram: Cannot read properties of null (reading ''
             @ [CHR 0x27] @ ''ok'' @ [CHR 0x27] @ '')'')],
       ConsoleLog
         [Styled Red ([CHR 0xE2, CHR 0x9C, CHR 0x96] @ '' [ERROR]''), Plain '' '',
          Styled Red ''Notifikasi Telegram gagal terkirim karena kesalahan koneksi atau API.'']])"
  by (simp add: sendTele_def sendTele_try_def sendTele_catch_def sendTele_post_def and_then_def
        type_error_def logStyled_def escapeMarkdownV2_def reserved_def replace_global_def
        backslash_def newline_def quote_def field_def Let_def)

text \<open>
  Claim C8, as amended. For every request that exposes a headers mapping, and a
  connection object unless its forwarded-for header is truthy, and whose sources are
  typed as an HTTP server has them, for every instant of the call and every behaviour of
  the geolocation service, \<^verbatim>\<open>getRequest\<close> resolves with a snapshot each field of which
  is a non-empty text. Where the sources are absent, the address, the agent, the method
  and the URL are their fallback literals and the query is \<^verbatim>\<open>{}\<close>. The location is
  never the literal \<^verbatim>\<open>Lokasi tidak diketahui\<close>: it is the composed text when the
  service reports success, and otherwise a text that starts with
  \<^verbatim>\<open>Gagal mendapatkan lokasi: \<close> or with \<^verbatim>\<open>Error saat mengambil lokasi: \<close>.
\<close>

theorem snapshot_fields:
  assumes "addressable req" "typed_sources req"
  shows "\<exists>snap effs. getRequest req (toLocaleString_id clock) geo = (Inr snap, effs) \<and>
           nonempty_text (ip snap) \<and> nonempty_text (userAgent snap) \<and>
           nonempty_text (method snap) \<and> nonempty_text (url snap) \<and>
           nonempty_text (query snap) \<and> nonempty_text (headers snap) \<and>
           location snap \<noteq> [] \<and> timestamp snap \<noteq> [] \<and>
           (\<not> truthy (field (field req ''headers'') ''x-forwarded-for'') \<and>
            \<not> truthy (field (field req ''connection'') ''remoteAddress'')
              \<longrightarrow> ip snap = JStr ''Unknown IP'') \<and>
           (\<not> truthy (field (field req ''headers'') ''user-agent'')
              \<longrightarrow> userAgent snap = JStr ''Unknown User-Agent'') \<and>
           (\<not> truthy (field req ''method'') \<longrightarrow> method snap = JStr ''Unknown Method'') \<and>
           (\<not> truthy (field req ''originalUrl'') \<and> \<not> truthy (field req ''url'')
              \<longrightarrow> url snap = JStr ''Unknown URL'') \<and>
           (\<not> truthy (field req ''query'') \<longrightarrow> query snap = JStr ''{}'') \<and>
           location snap \<noteq> ''Lokasi tidak diketahui'' \<and>
           (lookup_succeeded geo \<longrightarrow>
              location snap =
                to_string (field (geo_body geo) ''city'') @ '', ''
                @ to_string (field (geo_body geo) ''regionName'') @ '', ''
                @ to_string (field (geo_body geo) ''country'')) \<and>
           (\<not> lookup_succeeded geo \<longrightarrow>
              (\<exists>a. location snap = ''Gagal mendapatkan lokasi: '' @ a) \<or>
              (\<exists>a. location snap = ''Error saat mengambil lokasi: '' @ a))"
proof -
  have lit: "nonempty_text (JStr ''Unknown IP'')" "nonempty_text (JStr ''Unknown User-Agent'')"
    "nonempty_text (JStr ''Unknown Method'')" "nonempty_text (JStr ''Unknown URL'')"
    "nonempty_text (JStr ''{}'')"
    by (simp_all add: nonempty_text_def)
  from assms(2) have
    t1: "text_or_absent (field (field req ''headers'') ''x-forwarded-for'')" and
    t2: "text_or_absent (field (field req ''connection'') ''remoteAddress'')" and
    t3: "text_or_absent (field (field req ''headers'') ''user-agent'')" and
    t4: "text_or_absent (field req ''method'')" and
    t5: "text_or_absent (field req ''originalUrl'')" and
    t6: "text_or_absent (field req ''url'')" and
    m1: "mapping_or_absent (field req ''query'')" and
    m2: "mapping_or_absent (field req ''headers'')"
    by (simp_all add: typed_sources_def)
  have ip: "nonempty_text (js_or (field (field req ''headers'') ''x-forwarded-for'')
                 (js_or (field (field req ''connection'') ''remoteAddress'') (JStr ''Unknown IP'')))"
    by (intro js_or_text t1 t2 lit)
  have ua: "nonempty_text (js_or (field (field req ''headers'') ''user-agent'') (JStr ''Unknown User-Agent''))"
    by (intro js_or_text t3 lit)
  have me: "nonempty_text (js_or (field req ''method'') (JStr ''Unknown Method''))"
    by (intro js_or_text t4 lit)
  have ur: "nonempty_text (js_or (field req ''originalUrl'') (js_or (field req ''url'') (JStr ''Unknown URL'')))"
    by (intro js_or_text t5 t6 lit)
  have qu: "nonempty_text (if truthy (field req ''query'') then JSON_stringify 2 (field req ''query'')
                           else JStr ''{}'')"
    using m1 by (cases "field req ''query''") (simp_all add: mapping_or_absent_def lit JSON_stringify_mapping)
  have he: "nonempty_text (if truthy (field req ''headers'') then JSON_stringify 2 (field req ''headers'')
                           else JStr ''{}'')"
    using m2 by (cases "field req ''headers''") (simp_all add: mapping_or_absent_def lit JSON_stringify_mapping)
  show ?thesis
    unfolding getRequest_eq[OF assms(1)]
    using ip ua me ur qu he toLocaleString_id_nonempty getRequest_location_text
      getRequest_location_composed getRequest_location_explanatory
    by (simp add: js_or_def)
qed

theorem snapshot_fields_witness:
  "addressable bare_request \<and> typed_sources bare_request \<and>
   fst (getRequest bare_request (toLocaleString_id example_clock) (Rejected timeout_error)) =
     Inr \<lparr>ip = JStr ''Unknown IP'', userAgent = JStr ''Unknown User-Agent'',
           method = JStr ''Unknown Method'', url = JStr ''Unknown URL'',
           query = JStr ''{}'', headers = JStr ''{}'',
           location = ''Error saat mengambil lokasi: timeout of 1000ms exceeded'',
           timestamp = ''1/11/2026, 10.00.00''\<rparr> \<and>
   ''Error saat mengambil lokasi: timeout of 1000ms exceeded'' \<noteq> ''Lokasi tidak diketahui''"
proof -
  have h2: "typed_sources bare_request"
    by (simp add: typed_sources_def bare_request_def field_def text_or_absent_def mapping_or_absent_def)
  have e: "fst (getRequest bare_request (toLocaleString_id example_clock) (Rejected timeout_error)) =
     Inr \<lparr>ip = JStr ''Unknown IP'', userAgent = JStr ''Unknown User-Agent'',
           method = JStr ''Unknown Method'', url = JStr ''Unknown URL'',
           query = JStr ''{}'', headers = JStr ''{}'',
           location = ''Error saat mengambil lokasi: timeout of 1000ms exceeded'',
           timestamp = ''1/11/2026, 10.00.00''\<rparr>"
    unfolding getRequest_eq[OF bare_request_addressable] getRequest_location_rejected
    by (simp add: example_clock_text timeout_error_def bare_request_def field_def js_or_def
          JSON_stringify_def)
  from snapshot_fields[OF bare_request_addressable h2, of example_clock "Rejected timeout_error"]
  show ?thesis using bare_request_addressable h2 e by simp
qed

text \<open>
  Claim C8 as stated fails for the location: on a request without any source data and an
  answer of the geolocation service without any field, every other field is its fallback
  literal, but the location is the explanatory text and not \<^verbatim>\<open>Lokasi tidak diketahui\<close>,
  the initial value of line 58, which each path overwrites.
\<close>

theorem location_literal_unused:
  "fst (getRequest (JObj [(''headers'', JObj []), (''connection'', JObj [])]) ''1/11/2026, 10.00.00''
          (Resolved (JObj [(''data'', JObj [])])))
   = Inr \<lparr>ip = JStr ''Unknown IP'', userAgent = JStr ''Unknown User-Agent'',
          method = JStr ''Unknown Method'', url = JStr ''Unknown URL'',
          query = JStr ''{}'', headers = JStr ''{}'',
          location = ''Gagal mendapatkan lokasi: Error tidak diketahui dari ip-api.com'',
          timestamp = ''1/11/2026, 10.00.00''\<rparr> \<and>
   ''Gagal mendapatkan lokasi: Error tidak diketahui dari ip-api.com'' \<noteq> ''Lokasi tidak diketahui''"
  by (simp add: getRequest_def getRequest_ip_def getRequest_userAgent_def getRequest_method_def
        getRequest_url_def getRequest_query_def getRequest_headers_def getRequest_location_def
        getRequest_try_def getRequest_is_success_def getRequest_not_found_def and_then_def
        js_or_def JSON_stringify_def Let_def)

text \<open>
  Claim C9, as amended. The agent is the \<^verbatim>\<open>user-agent\<close> header or else
  \<^verbatim>\<open>Unknown User-Agent\<close>; the method is \<^verbatim>\<open>req.method\<close> or else \<^verbatim>\<open>Unknown Method\<close>;
  the path has two sources: it is \<^verbatim>\<open>req.originalUrl\<close>, or else \<^verbatim>\<open>req.url\<close>, or else
  \<^verbatim>\<open>Unknown URL\<close>.
\<close>

theorem agent_method_path_sources:
  assumes "addressable req"
  shows "\<exists>snap effs. getRequest req now geo = (Inr snap, effs) \<and>
           userAgent snap =
             js_or (field (field req ''headers'') ''user-agent'') (JStr ''Unknown User-Agent'') \<and>
           method snap = js_or (field req ''method'') (JStr ''Unknown Method'') \<and>
           url snap =
             js_or (field req ''originalUrl'') (js_or (field req ''url'') (JStr ''Unknown URL''))"
  by (simp add: getRequest_eq[OF assms])

theorem agent_method_path_sources_witness:
  "addressable example_request \<and>
   (\<exists>snap effs. getRequest example_request ''1/11/2026, 10.00.00'' (Resolved jakarta_response)
                   = (Inr snap, effs) \<and>
      userAgent snap = JStr ''curl/8.0'' \<and> method snap = JStr ''GET'' \<and>
      url snap = JStr ''/admin/login'')"
  using agent_method_path_sources[OF example_request_addressable,
      of "''1/11/2026, 10.00.00''" "Resolved jakarta_response"]
    example_request_addressable
  by (simp add: example_request_def field_def js_or_def)

text \<open>
  Claim C9 as stated fails for the path: on a request whose \<^verbatim>\<open>originalUrl\<close> and \<^verbatim>\<open>url\<close>
  differ, the path of the snapshot is the \<^verbatim>\<open>originalUrl\<close>, not what the single source
  \<^verbatim>\<open>req.url\<close> with its fallback gives.
\<close>

theorem path_has_two_sources:
  "fst (getRequest
          (JObj [(''headers'', JObj []), (''connection'', JObj []),
                 (''originalUrl'', JStr ''/admin/login''), (''url'', JStr ''/login'')])
          ''1/11/2026, 10.00.00'' (Rejected (JsError ''Error'' ''timeout'' JUndefined)))
   = Inr \<lparr>ip = JStr ''Unknown IP'', userAgent = JStr ''Unknown User-Agent'',
          method = JStr ''Unknown Method'', url = JStr ''/admin/login'',
          query = JStr ''{}'', headers = JStr ''{}'',
          location = ''Error saat mengambil lokasi: timeout'',
          timestamp = ''1/11/2026, 10.00.00''\<rparr> \<and>
   js_or (field (JObj [(''headers'', JObj []), (''connection'', JObj []),
                       (''originalUrl'', JStr ''/admin/login''), (''url'', JStr ''/login'')]) ''url'')
         (JStr ''Unknown URL'') = JStr ''/login''"
  by (simp add: getRequest_def getRequest_ip_def getRequest_userAgent_def getRequest_method_def
        getRequest_url_def getRequest_query_def getRequest_headers_def getRequest_location_def
        getRequest_try_def getRequest_catch_def and_then_def
        js_or_def JSON_stringify_def Let_def field_def)

text \<open>
  Claim C10. If the geolocation service answers with a response whose \<^verbatim>\<open>data\<close> is
  \<^verbatim>\<open>null\<close> or \<^verbatim>\<open>undefined\<close>, the read of its \<^verbatim>\<open>message\<close> throws, the \<^verbatim>\<open>catch\<close> block
  takes the error, and \<^verbatim>\<open>getRequest\<close> resolves with the location
  \<^verbatim>\<open>Error saat mengambil lokasi: \<close> followed by the message of that error.
\<close>

theorem missing_body_is_transport_failure:
  assumes "addressable req" "res \<noteq> JUndefined" "res \<noteq> JNull" "\<not> exposes res ''data''"
  shows "\<exists>snap effs e. getRequest req now (Resolved res) = (Inr snap, effs) \<and>
           get_prop (field res ''data'') ''message'' = Inl e \<and>
           location snap = ''Error saat mengambil lokasi: '' @ message e"
  using getRequest_location_no_body[OF assms(2,3,4)]
  by (simp add: getRequest_eq[OF assms(1)])

theorem missing_body_is_transport_failure_witness:
  "addressable example_request \<and> JObj [(''data'', JNull)] \<noteq> JUndefined \<and>
   JObj [(''data'', JNull)] \<noteq> JNull \<and> \<not> exposes (JObj [(''data'', JNull)]) ''data'' \<and>
   (\<exists>snap effs. getRequest example_request ''1/11/2026, 10.00.00'' (Resolved (JObj [(''data'', JNull)]))
                    = (Inr snap, effs) \<and>
      location snap = ''Error saat mengambil lokasi: '' @ message (type_error ''null'' ''message''))"
proof -
  have h: "\<not> exposes (JObj [(''data'', JNull)]) ''data''" by (simp add: exposes_def field_def)
  from missing_body_is_transport_failure[OF example_request_addressable _ _ h,
      of "''1/11/2026, 10.00.00''"]
  show ?thesis using example_request_addressable h by (auto simp: field_def)
qed

end
